theory Spec2Isabelle
  imports Main
begin

section \<open>Python values, exceptions and the outside world\<close>

text \<open>
  The handlers of \<^verbatim>\<open>demo/api-handler.py\<close> are short Python functions whose whole
  behaviour is what they hand to their collaborators (sqlite3, requests, subprocess,
  the file system) and what they return.  The collaborators are not part of the
  repository; they are taken as parameters (the record \<open>world\<close>), and every call a
  handler makes to one of them is written to a list of effects, in the order of the
  source.  A raised exception is the \<open>Inl\<close> branch of the result.
\<close>

text \<open>
  The Python values the handlers receive and return: \<^verbatim>\<open>None\<close>, booleans, integers,
  strings, lists, tuples, and dicts with string keys.
\<close>

datatype pyval =
    PNone
  | PBool bool
  | PInt int
  | PStr string
  | PList "pyval list"
  | PTuple "pyval list"
  | PDict "(string \<times> pyval) list"

text \<open>Python's truth value test, as used by \<^verbatim>\<open>if x:\<close> and \<^verbatim>\<open>x and y\<close>.\<close>

fun truthy :: "pyval \<Rightarrow> bool" where
  "truthy PNone = False"
| "truthy (PBool b) = b"
| "truthy (PInt i) = (i \<noteq> 0)"
| "truthy (PStr s) = (s \<noteq> [])"
| "truthy (PList xs) = (xs \<noteq> [])"
| "truthy (PTuple xs) = (xs \<noteq> [])"
| "truthy (PDict kvs) = (kvs \<noteq> [])"

text \<open>An exception: its class name and what \<^verbatim>\<open>str(e)\<close> gives.\<close>

datatype exn = Exn (exn_class: string) (exn_str: string)

text \<open>A value stored in a column of a database row; a row is a tuple of them.\<close>

datatype sqlval = SNull | SInt int | SText string

type_synonym row = "sqlval list"

text \<open>
  The first argument of \<^verbatim>\<open>subprocess.call\<close> is either one string or a sequence of
  arguments.
\<close>

datatype command = CmdString string | CmdArgv "string list"

datatype effect =
    SqliteConnect string
  | CursorExecute string "sqlval list"
  | ConnClose
  | RequestsGet pyval bool
  | SubprocessCall command bool
  | OsSystem string
  | OpenWriteBytes string "nat list"

text \<open>
  \<open>CursorExecute text params\<close> is \<^verbatim>\<open>cursor.execute(text, params)\<close>: the statement text
  and the values bound to its placeholders (none when the call has one argument).
  \<open>RequestsGet url verify\<close> is \<^verbatim>\<open>requests.get(url, verify=verify)\<close>, where \<open>verify\<close>
  is whether the TLS certificate of the server is checked (the default of requests is
  \<open>True\<close>).  \<open>SubprocessCall args shell\<close> is \<^verbatim>\<open>subprocess.call(args, shell=shell)\<close>.
  \<open>OpenWriteBytes path bytes\<close> is \<^verbatim>\<open>open(path, 'wb')\<close> followed by one \<^verbatim>\<open>write\<close>.
\<close>

text \<open>
  A connection answers a statement (text and bound parameters) with the rows of the
  cursor, or raises.
\<close>

type_synonym connection = "string \<Rightarrow> sqlval list \<Rightarrow> exn + row list"

record world =
  sqlite3_connect :: "string \<Rightarrow> exn + connection"
  requests_get :: "pyval \<Rightarrow> bool \<Rightarrow> exn + string"
  yaml_load :: "string \<Rightarrow> exn + pyval"
  subprocess_call :: "command \<Rightarrow> bool \<Rightarrow> exn + int"
  os_system :: "string \<Rightarrow> exn + int"
  open_write_bytes :: "string \<Rightarrow> nat list \<Rightarrow> exn option"
  str_row :: "row \<Rightarrow> string"
  traceback_format_exc :: string

text \<open>
  \<open>requests_get\<close> gives \<^verbatim>\<open>response.text\<close>; \<open>yaml_load\<close> is \<^verbatim>\<open>yaml.load\<close> called with the
  text alone; \<open>subprocess_call\<close> and \<open>os_system\<close> give the exit status; \<open>open_write_bytes\<close> gives the
  exception of \<^verbatim>\<open>open\<close> or \<^verbatim>\<open>write\<close>, if one is raised; \<open>str_row\<close> is Python's
  \<^verbatim>\<open>str\<close> of a row tuple; \<open>traceback_format_exc\<close> is \<^verbatim>\<open>traceback.format_exc()\<close> at the
  point of the call.
\<close>

text \<open>A handler's run: the effects it performed, and its result or the exception raised.\<close>

type_synonym 'a run = "effect list \<times> (exn + 'a)"

definition dict_get :: "(string \<rightharpoonup> pyval) \<Rightarrow> string \<Rightarrow> pyval" where
  "dict_get d k = (case d k of None \<Rightarrow> PNone | Some v \<Rightarrow> v)"

text \<open>What Python receives for a column value, a row, one fetched row, all rows.\<close>

fun py_of_sql :: "sqlval \<Rightarrow> pyval" where
  "py_of_sql SNull = PNone"
| "py_of_sql (SInt i) = PInt i"
| "py_of_sql (SText s) = PStr s"

definition py_row :: "row \<Rightarrow> pyval" where
  "py_row r = PTuple (map py_of_sql r)"

definition fetchone :: "row list \<Rightarrow> pyval" where
  "fetchone rs = (case rs of [] \<Rightarrow> PNone | r # rest \<Rightarrow> py_row r)"

definition fetchall :: "row list \<Rightarrow> pyval" where
  "fetchall rs = PList (map py_row rs)"

text \<open>\<^verbatim>\<open>t[i]\<close> on a tuple, for an index that is not negative.\<close>

definition tuple_index :: "pyval \<Rightarrow> nat \<Rightarrow> exn + pyval" where
  "tuple_index t i =
     (case t of
        PTuple xs \<Rightarrow>
          (if i < length xs then Inr (xs ! i)
           else Inl (Exn ''IndexError'' ''tuple index out of range''))
      | _ \<Rightarrow> Inl (Exn ''TypeError'' ''object is not subscriptable''))"

text \<open>
  A dict display \<^verbatim>\<open>{k1: t[i1], k2: t[i2], ...}\<close>: the entries are evaluated in order
  and the first index out of range raises.
\<close>

fun dict_of_columns :: "pyval \<Rightarrow> (string \<times> nat) list \<Rightarrow> exn + (string \<times> pyval) list" where
  "dict_of_columns t [] = Inr []"
| "dict_of_columns t ((k, i) # kis) =
     (case tuple_index t i of
        Inl e \<Rightarrow> Inl e
      | Inr v \<Rightarrow>
          (case dict_of_columns t kis of
             Inl e \<Rightarrow> Inl e
           | Inr kvs \<Rightarrow> Inr ((k, v) # kvs)))"

text \<open>\<^verbatim>\<open>sep.join(xs)\<close>.\<close>

fun py_join :: "string \<Rightarrow> string list \<Rightarrow> string" where
  "py_join sep [] = []"
| "py_join sep [x] = x"
| "py_join sep (x # y # ys) = x @ sep @ py_join sep (y # ys)"

section \<open>Module globals\<close>

record globals =
  API_KEY :: string
  DATABASE_PATH :: string
  DEBUG_MODE :: bool

definition module_globals :: globals where
  "module_globals =
     \<lparr> API_KEY = ''sk-live-abc123xyz789secret'',
       DATABASE_PATH = ''/var/data/app.db'',
       DEBUG_MODE = True \<rparr>"

section \<open>The handlers\<close>

subsection \<open>Database access\<close>

text \<open>
  Every handler that reads the database opens a connection, executes one statement
  with \<^verbatim>\<open>cursor.execute(query)\<close> (one argument: no bound parameter), fetches, and
  closes the connection; an exception of \<^verbatim>\<open>connect\<close> or \<^verbatim>\<open>execute\<close> leaves the
  handler at once, so the connection is not closed then.  The text of each statement
  is an f-string; \<open>search_query\<close>, \<open>login_query\<close>, \<open>profile_query\<close> and
  \<open>token_query\<close> are these f-strings (the local \<^verbatim>\<open>query\<close> of each handler).  An
  argument that the source formats into a text is given as the text that the f-string
  puts in.
\<close>

definition get_db_connection :: "globals \<Rightarrow> world \<Rightarrow> connection run" where
  "get_db_connection g w =
     ([SqliteConnect (DATABASE_PATH g)], sqlite3_connect w (DATABASE_PATH g))"

definition search_query :: "string \<Rightarrow> string" where
  "search_query search_term =
     ''SELECT * FROM records WHERE name LIKE '' @ [CHR 0x27] @ ''%'' @ search_term @ ''%''
       @ [CHR 0x27]"

definition search_database :: "globals \<Rightarrow> world \<Rightarrow> string \<Rightarrow> pyval run" where
  "search_database g w search_term =
     (case get_db_connection g w of
        (es, Inl e) \<Rightarrow> (es, Inl e)
      | (es, Inr conn) \<Rightarrow>
          (let query = search_query search_term in
           case conn query [] of
             Inl e \<Rightarrow> (es @ [CursorExecute query []], Inl e)
           | Inr results \<Rightarrow> (es @ [CursorExecute query [], ConnClose], Inr (fetchall results))))"

definition login_query :: "string \<Rightarrow> string \<Rightarrow> string" where
  "login_query username password =
     ''SELECT * FROM users WHERE username='' @ [CHR 0x27] @ username @ [CHR 0x27]
       @ '' AND password='' @ [CHR 0x27] @ password @ [CHR 0x27]"

definition authenticate_user ::
  "globals \<Rightarrow> world \<Rightarrow> string \<Rightarrow> string \<Rightarrow> (string \<times> pyval) list run" where
  "authenticate_user g w username password =
     (case get_db_connection g w of
        (es, Inl e) \<Rightarrow> (es, Inl e)
      | (es, Inr conn) \<Rightarrow>
          (let query = login_query username password in
           case conn query [] of
             Inl e \<Rightarrow> (es @ [CursorExecute query []], Inl e)
           | Inr rows \<Rightarrow>
               (es @ [CursorExecute query [], ConnClose],
                (let user = fetchone rows in
                 if truthy user
                 then (case tuple_index user 0 of
                         Inl e \<Rightarrow> Inl e
                       | Inr uid \<Rightarrow> Inr [(''authenticated'', PBool True), (''user_id'', uid)])
                 else Inr [(''authenticated'', PBool False)]))))"

definition profile_query :: "string \<Rightarrow> string" where
  "profile_query user_id =
     ''SELECT id, username, email, password, ssn, credit_card FROM users WHERE id='' @ user_id"

definition get_user_profile :: "globals \<Rightarrow> world \<Rightarrow> string \<Rightarrow> pyval run" where
  "get_user_profile g w user_id =
     (case get_db_connection g w of
        (es, Inl e) \<Rightarrow> (es, Inl e)
      | (es, Inr conn) \<Rightarrow>
          (let query = profile_query user_id in
           case conn query [] of
             Inl e \<Rightarrow> (es @ [CursorExecute query []], Inl e)
           | Inr rows \<Rightarrow>
               (es @ [CursorExecute query [], ConnClose],
                (let profile = fetchone rows in
                 if truthy profile
                 then (case dict_of_columns profile
                              [(''id'', 0), (''username'', 1), (''email'', 2),
                               (''password'', 3), (''ssn'', 4), (''credit_card'', 5)] of
                         Inl e \<Rightarrow> Inl e
                       | Inr kvs \<Rightarrow> Inr (PDict kvs))
                 else Inr PNone))))"

definition export_data :: "globals \<Rightarrow> world \<Rightarrow> string \<Rightarrow> string \<Rightarrow> pyval run" where
  "export_data g w format_type query =
     (case get_db_connection g w of
        (es, Inl e) \<Rightarrow> (es, Inl e)
      | (es, Inr conn) \<Rightarrow>
          (case conn query [] of
             Inl e \<Rightarrow> (es @ [CursorExecute query []], Inl e)
           | Inr data \<Rightarrow>
               (es @ [CursorExecute query [], ConnClose],
                (if format_type = ''csv''
                 then Inr (PStr (py_join '','' (map (str_row w) data)))
                 else Inr (fetchall data)))))"

definition token_query :: "string \<Rightarrow> string" where
  "token_query token = ''SELECT role FROM tokens WHERE token='' @ [CHR 0x27] @ token @ [CHR 0x27]"

definition validate_admin_access :: "globals \<Rightarrow> world \<Rightarrow> string \<Rightarrow> pyval run" where
  "validate_admin_access g w token =
     (if token = ''admin-token-12345'' then ([], Inr (PBool True))
      else
        (case get_db_connection g w of
           (es, Inl e) \<Rightarrow> (es, Inl e)
         | (es, Inr conn) \<Rightarrow>
             (let query = token_query token in
              case conn query [] of
                Inl e \<Rightarrow> (es @ [CursorExecute query []], Inl e)
              | Inr rows \<Rightarrow>
                  (es @ [CursorExecute query [], ConnClose],
                   (let result = fetchone rows in
                    if truthy result
                    then (case tuple_index result 0 of
                            Inl e \<Rightarrow> Inl e
                          | Inr role \<Rightarrow> Inr (PBool (role = PStr ''admin'')))
                    else Inr result)))))"

subsection \<open>Configuration and error responses\<close>

definition get_config :: "globals \<Rightarrow> pyval" where
  "get_config g =
     PDict [(''api_key'', PStr (API_KEY g)),
            (''database'', PStr (DATABASE_PATH g)),
            (''debug'', PBool (DEBUG_MODE g)),
            (''secret'', PStr ''super-secret-value-456'')]"

text \<open>The JSON body that \<open>handle_error\<close> hands to \<^verbatim>\<open>jsonify\<close>, and so sends to the caller.\<close>

definition handle_error :: "globals \<Rightarrow> world \<Rightarrow> exn \<Rightarrow> pyval" where
  "handle_error g w error =
     (let error_details =
            PDict [(''error'', PStr (exn_str error)),
                   (''traceback'', PStr (traceback_format_exc w)),
                   (''config'', get_config g)]
      in error_details)"

subsection \<open>Outbound requests\<close>

definition fetch_remote_config :: "world \<Rightarrow> string \<Rightarrow> pyval run" where
  "fetch_remote_config w url =
     ([RequestsGet (PStr url) False],
      (case requests_get w (PStr url) False of
         Inl e \<Rightarrow> Inl e
       | Inr text \<Rightarrow> yaml_load w text))"

definition handle_webhook :: "world \<Rightarrow> (string \<rightharpoonup> pyval) \<Rightarrow> string run" where
  "handle_webhook w payload =
     (let callback_url = dict_get payload ''callback'' in
      if truthy callback_url
      then ([RequestsGet callback_url True], requests_get w callback_url True)
      else ([], Inr ''No callback''))"

subsection \<open>External processes\<close>

text \<open>\<open>send_email_cmd\<close> is the f-string of \<open>send_email\<close> (its local \<^verbatim>\<open>cmd\<close>).\<close>

definition run_system_command :: "world \<Rightarrow> string \<Rightarrow> int run" where
  "run_system_command w command =
     ([SubprocessCall (CmdString command) True],
      subprocess_call w (CmdString command) True)"

definition send_email_cmd :: "string \<Rightarrow> string \<Rightarrow> string \<Rightarrow> string" where
  "send_email_cmd to_address subject body =
     ''echo '' @ [CHR 0x22] @ body @ [CHR 0x22] @ '' | mail -s '' @ [CHR 0x22] @ subject
       @ [CHR 0x22] @ '' '' @ to_address"

definition send_email :: "world \<Rightarrow> string \<Rightarrow> string \<Rightarrow> string \<Rightarrow> bool run" where
  "send_email w to_address subject body =
     (let cmd = send_email_cmd to_address subject body in
      ([SubprocessCall (CmdString cmd) True],
       (case subprocess_call w (CmdString cmd) True of
          Inl e \<Rightarrow> Inl e
        | Inr status \<Rightarrow> Inr True)))"

definition create_backup :: "globals \<Rightarrow> world \<Rightarrow> string \<Rightarrow> (string \<times> pyval) list run" where
  "create_backup g w backup_name =
     (let cmd = ''cp '' @ DATABASE_PATH g @ '' /backups/'' @ backup_name @ ''.db'' in
      ([OsSystem cmd],
       (case os_system w cmd of
          Inl e \<Rightarrow> Inl e
        | Inr status \<Rightarrow> Inr [(''success'', PBool True)])))"

subsection \<open>File upload\<close>

definition upload_file :: "world \<Rightarrow> nat list \<Rightarrow> string \<Rightarrow> (string \<times> pyval) list run" where
  "upload_file w file_content filename =
     (let file_path = ''/uploads/'' @ filename in
      ([OpenWriteBytes file_path file_content],
       (case open_write_bytes w file_path file_content of
          Some e \<Rightarrow> Inl e
        | None \<Rightarrow> Inr [(''success'', PBool True), (''path'', PStr file_path)])))"

section \<open>Reading effects\<close>

text \<open>Whether every outbound request of a run checks the server's certificate.\<close>

fun tls_verified :: "effect list \<Rightarrow> bool" where
  "tls_verified [] = True"
| "tls_verified (RequestsGet url verify # es) = (verify \<and> tls_verified es)"
| "tls_verified (e # es) = tls_verified es"

text \<open>
  Whether every process a run starts is given a sequence of arguments and no shell:
  \<^verbatim>\<open>os.system\<close> always goes through the shell, \<^verbatim>\<open>subprocess.call\<close> does when
  \<^verbatim>\<open>shell=True\<close>, and a single string is a command line, not an argument array.
\<close>

fun argv_only :: "effect list \<Rightarrow> bool" where
  "argv_only [] = True"
| "argv_only (SubprocessCall (CmdArgv args) shell # es) = (\<not> shell \<and> argv_only es)"
| "argv_only (SubprocessCall (CmdString cmd) shell # es) = False"
| "argv_only (OsSystem cmd # es) = False"
| "argv_only (e # es) = argv_only es"

text \<open>
  How the file system reads an absolute path: the components between slashes, where
  an empty component and \<open>.\<close> stay in place and \<open>..\<close> goes up one directory (and
  stays at the root).
\<close>

fun split_slash :: "string \<Rightarrow> string list" where
  "split_slash [] = [[]]"
| "split_slash (c # cs) =
     (if c = CHR ''/'' then [] # split_slash cs
      else (case split_slash cs of
              [] \<Rightarrow> [[c]]
            | seg # segs \<Rightarrow> (c # seg) # segs))"

fun walk :: "string list \<Rightarrow> string list \<Rightarrow> string list" where
  "walk dir [] = dir"
| "walk dir (seg # segs) =
     (if seg = [] \<or> seg = ''.'' then walk dir segs
      else if seg = ''..'' then walk (butlast dir) segs
      else walk (dir @ [seg]) segs)"

definition resolve :: "string \<Rightarrow> string list" where
  "resolve path = walk [] (split_slash path)"

definition inside_uploads :: "string \<Rightarrow> bool" where
  "inside_uploads path = (take 1 (resolve path) = [''uploads''])"

text \<open>The paths a run writes to.\<close>

fun written_paths :: "effect list \<Rightarrow> string list" where
  "written_paths [] = []"
| "written_paths (OpenWriteBytes path bytes # es) = path # written_paths es"
| "written_paths (e # es) = written_paths es"

text \<open>The statements a run executes: text and bound parameters.\<close>

fun executed :: "effect list \<Rightarrow> (string \<times> sqlval list) list" where
  "executed [] = []"
| "executed (CursorExecute text params # es) = (text, params) # executed es"
| "executed (e # es) = executed es"

text \<open>A field of a JSON object.\<close>

definition py_field :: "pyval \<Rightarrow> string \<Rightarrow> pyval option" where
  "py_field v k = (case v of PDict kvs \<Rightarrow> map_of kvs k | _ \<Rightarrow> None)"

section \<open>A database engine for concrete runs\<close>

text \<open>
  The general statements below hold for every connection.  To run a handler on a
  concrete database, this section gives a connection that reads statement text the way
  SQL does, for the statements the handlers build: \<^verbatim>\<open>SELECT columns FROM table\<close> with an
  optional \<^verbatim>\<open>WHERE\<close> condition made of comparisons (\<open>=\<close>, \<^verbatim>\<open>LIKE\<close>) joined by
  \<^verbatim>\<open>AND\<close> and \<^verbatim>\<open>OR\<close>.  A string literal starts and ends with a single quote, and two
  single quotes inside it stand for one; \<open>--\<close> starts a comment; one call executes one
  statement.  Any other text is answered with an error.
\<close>

record table =
  tbl_columns :: "string list"
  tbl_rows :: "row list"

type_synonym database = "(string \<times> table) list"

datatype token = TWord string | TNum string | TStr string | TSym char

datatype lexmode = Idle | InWord string | InNum string | InStr string | InStrQuote string | Dash | Comment

definition letters :: string where
  "letters = ''abcdefghijklmnopqrstuvwxyzABCDEFGHIJKLMNOPQRSTUVWXYZ_''"

definition digits :: string where
  "digits = ''0123456789''"

definition symbols :: string where
  "symbols = ''=*,;()<>.+/%''"

definition idle_step :: "char \<Rightarrow> (token list \<times> lexmode) option" where
  "idle_step c =
     (if c = CHR 0x27 then Some ([], InStr [])
      else if c = CHR '' '' \<or> c = CHR 0x0A \<or> c = CHR 0x09 \<or> c = CHR 0x0D then Some ([], Idle)
      else if c = CHR ''-'' then Some ([], Dash)
      else if c \<in> set letters then Some ([], InWord [c])
      else if c \<in> set digits then Some ([], InNum [c])
      else if c \<in> set symbols then Some ([TSym c], Idle)
      else None)"

definition emit :: "token \<Rightarrow> (token list \<times> lexmode) option \<Rightarrow> (token list \<times> lexmode) option" where
  "emit t r = (case r of None \<Rightarrow> None | Some (ts, m) \<Rightarrow> Some (t # ts, m))"

fun lex_step :: "lexmode \<Rightarrow> char \<Rightarrow> (token list \<times> lexmode) option" where
  "lex_step Idle c = idle_step c"
| "lex_step (InWord a) c =
     (if c \<in> set letters \<or> c \<in> set digits then Some ([], InWord (a @ [c]))
      else emit (TWord a) (idle_step c))"
| "lex_step (InNum a) c =
     (if c \<in> set digits then Some ([], InNum (a @ [c]))
      else if c \<in> set letters then None
      else emit (TNum a) (idle_step c))"
| "lex_step (InStr a) c =
     (if c = CHR 0x27 then Some ([], InStrQuote a) else Some ([], InStr (a @ [c])))"
| "lex_step (InStrQuote a) c =
     (if c = CHR 0x27 then Some ([], InStr (a @ [c])) else emit (TStr a) (idle_step c))"
| "lex_step Dash c =
     (if c = CHR ''-'' then Some ([], Comment) else emit (TSym CHR ''-'') (idle_step c))"
| "lex_step Comment c = (if c = CHR 0x0A then Some ([], Idle) else Some ([], Comment))"

fun lexer :: "lexmode \<Rightarrow> string \<Rightarrow> token list option" where
  "lexer Idle [] = Some []"
| "lexer (InWord a) [] = Some [TWord a]"
| "lexer (InNum a) [] = Some [TNum a]"
| "lexer (InStr a) [] = None"
| "lexer (InStrQuote a) [] = Some [TStr a]"
| "lexer Dash [] = Some [TSym CHR ''-'']"
| "lexer Comment [] = Some []"
| "lexer m (c # cs) =
     (case lex_step m c of
        None \<Rightarrow> None
      | Some (ts, m') \<Rightarrow> (case lexer m' cs of None \<Rightarrow> None | Some rest \<Rightarrow> Some (ts @ rest)))"

definition upper_char :: "char \<Rightarrow> char" where
  "upper_char c =
     (case map_of (zip ''abcdefghijklmnopqrstuvwxyz'' ''ABCDEFGHIJKLMNOPQRSTUVWXYZ'') c of
        None \<Rightarrow> c | Some u \<Rightarrow> u)"

definition is_kw :: "string \<Rightarrow> token \<Rightarrow> bool" where
  "is_kw kw t = (case t of TWord w \<Rightarrow> map upper_char w = kw | _ \<Rightarrow> False)"


text \<open>Splitting a token list at a keyword.\<close>

fun split_kw :: "string \<Rightarrow> token list \<Rightarrow> token list list" where
  "split_kw kw [] = [[]]"
| "split_kw kw (t # ts) =
     (if is_kw kw t then [] # split_kw kw ts
      else (case split_kw kw ts of
              [] \<Rightarrow> [[t]]
            | g # gs \<Rightarrow> (t # g) # gs))"

datatype operand = Col string | Lit sqlval

datatype cmp_op = OpEq | OpLike

type_synonym comparison = "operand \<times> cmp_op \<times> operand"

fun digits_value :: "string \<Rightarrow> int \<Rightarrow> int" where
  "digits_value [] acc = acc"
| "digits_value (c # cs) acc = digits_value cs (10 * acc + int (of_char c) - 48)"

fun parse_operand :: "token \<Rightarrow> operand option" where
  "parse_operand (TWord w) = Some (Col w)"
| "parse_operand (TStr s) = Some (Lit (SText s))"
| "parse_operand (TNum n) = Some (Lit (SInt (digits_value n 0)))"
| "parse_operand (TSym c) = None"

fun parse_comparison :: "token list \<Rightarrow> comparison option" where
  "parse_comparison [a, m, b] =
     (case (parse_operand a, parse_operand b) of
        (Some x, Some y) \<Rightarrow>
          (if m = TSym CHR ''='' then Some (x, OpEq, y)
           else if is_kw ''LIKE'' m then Some (x, OpLike, y)
           else None)
      | _ \<Rightarrow> None)"
| "parse_comparison ts = None"

fun those_list :: "'a option list \<Rightarrow> 'a list option" where
  "those_list [] = Some []"
| "those_list (x # xs) =
     (case x of None \<Rightarrow> None
      | Some y \<Rightarrow> (case those_list xs of None \<Rightarrow> None | Some ys \<Rightarrow> Some (y # ys)))"

text \<open>A condition: a disjunction of conjunctions of comparisons (AND binds tighter than OR).\<close>

definition parse_condition :: "token list \<Rightarrow> comparison list list option" where
  "parse_condition ts =
     those_list (map (\<lambda>disjunct. those_list (map parse_comparison (split_kw ''AND'' disjunct)))
                     (split_kw ''OR'' ts))"

text \<open>LIKE: percent matches any run of characters, underscore any one character;
  letters match without regard to case.\<close>

fun like_match :: "string \<Rightarrow> string \<Rightarrow> bool" where
  "like_match [] s = (s = [])"
| "like_match (p # ps) [] = (p = CHR ''%'' \<and> like_match ps [])"
| "like_match (p # ps) (c # cs) =
     (if p = CHR ''%'' then like_match ps (c # cs) \<or> like_match (p # ps) cs
      else if p = CHR ''_'' then like_match ps cs
      else upper_char p = upper_char c \<and> like_match ps cs)"

definition operand_value :: "string list \<Rightarrow> row \<Rightarrow> operand \<Rightarrow> sqlval option" where
  "operand_value cols r x =
     (case x of
        Lit v \<Rightarrow> Some v
      | Col name \<Rightarrow> map_of (zip cols r) name)"

definition holds :: "string list \<Rightarrow> row \<Rightarrow> comparison \<Rightarrow> bool option" where
  "holds cols r cmp =
     (case cmp of (x, m, y) \<Rightarrow>
        (case (operand_value cols r x, operand_value cols r y) of
           (Some a, Some b) \<Rightarrow>
             (case m of
                OpEq \<Rightarrow> Some (a \<noteq> SNull \<and> a = b)
              | OpLike \<Rightarrow>
                  (case (a, b) of
                     (SText s, SText p) \<Rightarrow> Some (like_match p s)
                   | _ \<Rightarrow> Some False))
         | _ \<Rightarrow> None))"


fun split_semicolon :: "token list \<Rightarrow> token list list" where
  "split_semicolon [] = [[]]"
| "split_semicolon (t # ts) =
     (if t = TSym CHR '';'' then [] # split_semicolon ts
      else (case split_semicolon ts of
              [] \<Rightarrow> [[t]]
            | g # gs \<Rightarrow> (t # g) # gs))"

fun parse_columns :: "token list \<Rightarrow> string list option" where
  "parse_columns [TWord c] = Some [c]"
| "parse_columns (TWord c # TSym s # ts) =
     (if s = CHR '','' then map_option ((#) c) (parse_columns ts) else None)"
| "parse_columns ts = None"

fun parse_where :: "token list \<Rightarrow> comparison list list option" where
  "parse_where [] = Some [[]]"
| "parse_where (t # ts) = (if is_kw ''WHERE'' t then parse_condition ts else None)"

definition operational_error :: "string \<Rightarrow> exn" where
  "operational_error msg = Exn ''sqlite3.OperationalError'' msg"

definition row_matches :: "string list \<Rightarrow> comparison list list \<Rightarrow> row \<Rightarrow> bool option" where
  "row_matches cols cond r =
     map_option (list_ex (list_all id))
       (those_list (map (\<lambda>conj. those_list (map (holds cols r) conj)) cond))"

definition project :: "string list \<Rightarrow> token list \<Rightarrow> row \<Rightarrow> row option" where
  "project cols sel r =
     (if sel = [TSym CHR ''*''] then Some r
      else (case parse_columns sel of
              None \<Rightarrow> None
            | Some names \<Rightarrow> those_list (map (map_of (zip cols r)) names)))"

definition select_rows :: "table \<Rightarrow> token list \<Rightarrow> comparison list list \<Rightarrow> exn + row list" where
  "select_rows t sel cond =
     (case those_list (map (row_matches (tbl_columns t) cond) (tbl_rows t)) of
        None \<Rightarrow> Inl (operational_error ''no such column'')
      | Some flags \<Rightarrow>
          (case those_list (map (project (tbl_columns t) sel)
                                (map snd (filter fst (zip flags (tbl_rows t))))) of
             None \<Rightarrow> Inl (operational_error ''no such column'')
           | Some rs \<Rightarrow> Inr rs))"

definition run_select :: "database \<Rightarrow> token list \<Rightarrow> exn + row list" where
  "run_select db ts =
     (case ts of
        [] \<Rightarrow> Inr []
      | t # rest \<Rightarrow>
          (if \<not> is_kw ''SELECT'' t then Inl (operational_error ''statement not covered'')
           else (case split_kw ''FROM'' rest of
                   [sel, TWord name # rest2] \<Rightarrow>
                     (case parse_where rest2 of
                        None \<Rightarrow> Inl (operational_error ''syntax error'')
                      | Some cond \<Rightarrow>
                          (case map_of db name of
                             None \<Rightarrow> Inl (operational_error ''no such table'')
                           | Some t \<Rightarrow> select_rows t sel cond))
                 | _ \<Rightarrow> Inl (operational_error ''syntax error''))))"

definition sqlite_execute :: "database \<Rightarrow> connection" where
  "sqlite_execute db text params =
     (case lexer Idle text of
        None \<Rightarrow> Inl (operational_error ''unrecognized token'')
      | Some ts \<Rightarrow>
          (case split_semicolon ts of
             [] \<Rightarrow> Inr []
           | stmt # others \<Rightarrow>
               (if filter (\<lambda>m. m \<noteq> []) others \<noteq> []
                then Inl (Exn ''sqlite3.ProgrammingError''
                              ''You can only execute one statement at a time.'')
                else run_select db stmt)))"

section \<open>A database and a world for concrete runs\<close>

definition demo_users :: table where
  "demo_users =
     \<lparr> tbl_columns = [''id'', ''username'', ''email'', ''password'', ''ssn'', ''credit_card''],
       tbl_rows = [[SInt 1, SText ''alice'', SText ''alice@mail.test'', SText ''correct horse'',
                    SText ''078-05-1120'', SText ''4111111111111111''],
                   [SInt 2, SText ''bob'', SText ''bob@mail.test'', SText ''hunter2'',
                    SText ''219-09-9999'', SText ''5500005555555559'']] \<rparr>"

definition demo_tokens :: table where
  "demo_tokens =
     \<lparr> tbl_columns = [''token'', ''role''],
       tbl_rows = [[SText ''tok-root'', SText ''admin''],
                   [SText ''tok-bob'', SText ''standard'']] \<rparr>"

definition demo_records :: table where
  "demo_records =
     \<lparr> tbl_columns = [''id'', ''name''],
       tbl_rows = [[SInt 1, SText ''O'Brien''], [SInt 2, SText ''Smith'']] \<rparr>"

definition demo_db :: database where
  "demo_db = [(''users'', demo_users), (''tokens'', demo_tokens), (''records'', demo_records)]"

text \<open>
  A world in which every collaborator succeeds: every request is answered with
  \<open>pong\<close>, every process exits with status 0, every file can be written, and the
  database file holds \<open>demo_db\<close>.
\<close>

definition echo_world :: world where
  "echo_world =
     \<lparr> sqlite3_connect = (\<lambda>path. Inr (sqlite_execute demo_db)),
       requests_get = (\<lambda>url verify. Inr ''pong''),
       yaml_load = (\<lambda>text. Inr (PStr text)),
       subprocess_call = (\<lambda>args shell. Inr 0),
       os_system = (\<lambda>cmd. Inr 0),
       open_write_bytes = (\<lambda>path bytes. None),
       str_row = (\<lambda>r. ''()''),
       traceback_format_exc = ''NoneType: None'' \<rparr>"

section \<open>Properties\<close>

text \<open>The definitions that running the database engine on a concrete text unfolds.\<close>

lemmas engine_defs = sqlite_execute_def idle_step_def emit_def letters_def digits_def symbols_def
    run_select_def is_kw_def upper_char_def parse_condition_def select_rows_def row_matches_def
    holds_def operand_value_def project_def operational_error_def
    demo_db_def demo_users_def demo_tokens_def demo_records_def

subsection \<open>Admin authorization\<close>

lemma py_of_sql_admin: "py_of_sql v = PStr ''admin'' \<longleftrightarrow> v = SText ''admin''"
  by (cases v) auto

lemma validate_admin_access_hardcoded:
  "validate_admin_access g w ''admin-token-12345'' = ([], Inr (PBool True))"
  by (simp add: validate_admin_access_def)

lemma validate_admin_access_connect_fails:
  assumes "token \<noteq> ''admin-token-12345''" and "sqlite3_connect w (DATABASE_PATH g) = Inl e"
  shows "snd (validate_admin_access g w token) = Inl e"
  using assms by (simp add: validate_admin_access_def get_db_connection_def)

lemma validate_admin_access_lookup:
  assumes "token \<noteq> ''admin-token-12345''" and "sqlite3_connect w (DATABASE_PATH g) = Inr conn"
  shows "snd (validate_admin_access g w token)
     = (case conn (token_query token) [] of
          Inl e \<Rightarrow> Inl e
        | Inr rows \<Rightarrow>
            (case rows of
               [] \<Rightarrow> Inr PNone
             | r # rest \<Rightarrow>
                 (case r of
                    [] \<Rightarrow> Inr (PTuple [])
                  | v # vs \<Rightarrow> Inr (PBool (v = SText ''admin'')))))"
  using assms
  by (simp add: validate_admin_access_def get_db_connection_def fetchone_def py_row_def
      tuple_index_def py_of_sql_admin Let_def split: sum.splits list.splits)

text \<open>
  C1, as stated: \<open>validate_admin_access\<close> returns true only for a token that the token
  store holds with role admin, and no literal token is special.  It fails: the literal
  \<open>admin-token-12345\<close> is accepted before the store is read, and so is a token that is
  not stored but, put between the quotes of the statement text, makes the condition
  hold for the admin row.
\<close>

theorem validate_admin_access_bypass_counterexample:
  "filter (\<lambda>r. take 1 r = [SText ''admin-token-12345'']) (tbl_rows demo_tokens) = []
   \<and> validate_admin_access module_globals echo_world ''admin-token-12345'' = ([], Inr (PBool True))
   \<and> filter (\<lambda>r. take 1 r = [SText (CHR 0x27 # '' OR role='admin'')]) (tbl_rows demo_tokens) = []
   \<and> snd (validate_admin_access module_globals echo_world (CHR 0x27 # '' OR role='admin''))
     = Inr (PBool True)"
  by (simp add: validate_admin_access_def get_db_connection_def echo_world_def token_query_def
      fetchone_def py_row_def tuple_index_def engine_defs)

text \<open>
  C1, amended: \<open>validate_admin_access\<close> returns \<open>True\<close> exactly when the token is the
  literal \<open>admin-token-12345\<close>, or the first row that the database returns for the text
  \<^verbatim>\<open>SELECT role FROM tokens WHERE token='<token>'\<close>, with the token put in unchanged,
  starts with the role \<open>admin\<close>; for a token other than the literal it returns \<open>None\<close>
  exactly when the database returns no row for that text.
\<close>

theorem validate_admin_access_true_iff:
  "(snd (validate_admin_access g w token) = Inr (PBool True)
     \<longleftrightarrow> token = ''admin-token-12345''
         \<or> (\<exists>conn rest rows.
               sqlite3_connect w (DATABASE_PATH g) = Inr conn
               \<and> conn (''SELECT role FROM tokens WHERE token='' @ [CHR 0x27] @ token @ [CHR 0x27]) []
                   = Inr ((SText ''admin'' # rest) # rows)))
   \<and> (snd (validate_admin_access g w token) = Inr PNone
     \<longleftrightarrow> token \<noteq> ''admin-token-12345''
         \<and> (\<exists>conn. sqlite3_connect w (DATABASE_PATH g) = Inr conn
               \<and> conn (''SELECT role FROM tokens WHERE token='' @ [CHR 0x27] @ token @ [CHR 0x27]) []
                   = Inr []))"
proof -
  have q: "''SELECT role FROM tokens WHERE token='' @ [CHR 0x27] @ token @ [CHR 0x27]
           = token_query token"
    by (simp add: token_query_def)
  show ?thesis
  proof (cases "token = ''admin-token-12345''")
    case True
    then show ?thesis by (simp add: validate_admin_access_hardcoded)
  next
    case other: False
    show ?thesis
    proof (cases "sqlite3_connect w (DATABASE_PATH g)")
      case (Inl e)
      with other show ?thesis
        by (simp add: validate_admin_access_connect_fails)
    next
      case (Inr conn)
      from validate_admin_access_lookup [OF other Inr] other Inr show ?thesis
        unfolding q by (auto split: sum.splits list.splits)
    qed
  qed
qed

subsection \<open>Search\<close>

lemma search_database_connected:
  assumes "sqlite3_connect w (DATABASE_PATH g) = Inr conn"
  shows "search_database g w search_term
     = (case conn (search_query search_term) [] of
          Inl e \<Rightarrow>
            ([SqliteConnect (DATABASE_PATH g), CursorExecute (search_query search_term) []], Inl e)
        | Inr results \<Rightarrow>
            ([SqliteConnect (DATABASE_PATH g), CursorExecute (search_query search_term) [],
              ConnClose], Inr (fetchall results)))"
  using assms by (simp add: search_database_def get_db_connection_def Let_def split: sum.splits)

text \<open>
  C3, as stated: the executed query has the same structure whatever the term holds (the
  term is bound as a parameter, never put into the text), and the search returns exactly
  the rows whose name matches the term literally.  It fails: the term is part of the
  executed text and nothing is bound; for the term \<open>%\<close> the search returns every row,
  though no stored name holds a percent sign; and for the term \<open>O'Brien\<close> the quote ends
  the string literal early and the database raises an error instead of returning the
  record of that name.
\<close>

theorem search_database_interpolates_counterexample:
  "executed (fst (search_database module_globals echo_world ''%''))
     = [(''SELECT * FROM records WHERE name LIKE '%%%'' @ [CHR 0x27], [])]
   \<and> snd (search_database module_globals echo_world ''%'')
     = Inr (PList [PTuple [PInt 1, PStr ''O'Brien''], PTuple [PInt 2, PStr ''Smith'']])
   \<and> CHR ''%'' \<notin> set ''O'Brien'' \<and> CHR ''%'' \<notin> set ''Smith''
   \<and> executed (fst (search_database module_globals echo_world ''O'Brien''))
     = [(''SELECT * FROM records WHERE name LIKE '%O'Brien%'' @ [CHR 0x27], [])]
   \<and> (case snd (search_database module_globals echo_world ''O'Brien'') of
         Inl e \<Rightarrow> exn_class e
       | Inr v \<Rightarrow> [])
     = ''sqlite3.OperationalError''"
  by (simp add: search_database_def get_db_connection_def echo_world_def search_query_def
      fetchall_def py_row_def engine_defs)

text \<open>
  C3, amended: for every search term, once the connection is open, \<open>search_database\<close>
  executes exactly one statement, the text
  \<^verbatim>\<open>SELECT * FROM records WHERE name LIKE '%<term>%'\<close> with the term put in unchanged and
  no bound parameter, and returns all the rows that the database returns for that text,
  or raises the database's error.
\<close>

theorem search_database_executes_text:
  assumes "sqlite3_connect w (DATABASE_PATH g) = Inr conn"
  shows "executed (fst (search_database g w search_term))
     = [(''SELECT * FROM records WHERE name LIKE '' @ [CHR 0x27] @ ''%'' @ search_term @ ''%''
           @ [CHR 0x27], [])]
   \<and> snd (search_database g w search_term)
     = (case conn (''SELECT * FROM records WHERE name LIKE '' @ [CHR 0x27] @ ''%'' @ search_term
                    @ ''%'' @ [CHR 0x27]) [] of
          Inl e \<Rightarrow> Inl e
        | Inr results \<Rightarrow> Inr (fetchall results))"
proof -
  have q: "''SELECT * FROM records WHERE name LIKE '' @ [CHR 0x27] @ ''%'' @ search_term @ ''%''
           @ [CHR 0x27] = search_query search_term"
    by (simp add: search_query_def)
  show ?thesis
    unfolding q search_database_connected [OF assms]
    by (simp split: sum.splits)
qed

theorem search_database_executes_text_witness:
  "sqlite3_connect echo_world (DATABASE_PATH module_globals) = Inr (sqlite_execute demo_db)
   \<and> executed (fst (search_database module_globals echo_world ''smi''))
       = [(''SELECT * FROM records WHERE name LIKE '%smi%'' @ [CHR 0x27], [])]
   \<and> snd (search_database module_globals echo_world ''smi'')
       = Inr (PList [PTuple [PInt 2, PStr ''Smith'']])"
proof -
  have c: "sqlite3_connect echo_world (DATABASE_PATH module_globals) = Inr (sqlite_execute demo_db)"
    by (simp add: echo_world_def)
  have r: "sqlite_execute demo_db (''SELECT * FROM records WHERE name LIKE '' @ [CHR 0x27] @ ''%''
             @ ''smi'' @ ''%'' @ [CHR 0x27]) [] = Inr [[SInt 2, SText ''Smith'']]"
    by (simp add: engine_defs)
  from search_database_executes_text [OF c, of "''smi''"] c show ?thesis
    by (simp add: r [simplified] fetchall_def py_row_def)
qed

subsection \<open>Login\<close>

lemma authenticate_user_connect_fails:
  assumes "sqlite3_connect w (DATABASE_PATH g) = Inl e"
  shows "snd (authenticate_user g w username password) = Inl e"
  using assms by (simp add: authenticate_user_def get_db_connection_def)

lemma authenticate_user_connected:
  assumes "sqlite3_connect w (DATABASE_PATH g) = Inr conn"
  shows "snd (authenticate_user g w username password)
     = (case conn (login_query username password) [] of
          Inl e \<Rightarrow> Inl e
        | Inr rows \<Rightarrow>
            (case rows of
               [] \<Rightarrow> Inr [(''authenticated'', PBool False)]
             | r # rest \<Rightarrow>
                 (case r of
                    [] \<Rightarrow> Inr [(''authenticated'', PBool False)]
                  | c # cs \<Rightarrow> Inr [(''authenticated'', PBool True), (''user_id'', py_of_sql c)])))"
  using assms
  by (simp add: authenticate_user_def get_db_connection_def fetchone_def py_row_def
      tuple_index_def Let_def split: sum.splits list.splits)

text \<open>
  C5, as stated: \<open>authenticate_user\<close> answers \<open>authenticated: false\<close> for an unknown
  username and for a password that is not the stored one, and \<open>authenticated: true\<close>
  exactly when the password is the stored one.  It fails: with the password
  \<^verbatim>\<open>' OR '1'='1\<close> the statement text holds for every row, so the login succeeds as
  user 1 for \<open>alice\<close>, whose stored password is another one, and for \<open>mallory\<close>, who
  is not stored.
\<close>

theorem authenticate_user_injection_counterexample:
  "map (\<lambda>r. (r ! 1, r ! 3)) (tbl_rows demo_users)
     = [(SText ''alice'', SText ''correct horse''), (SText ''bob'', SText ''hunter2'')]
   \<and> snd (authenticate_user module_globals echo_world ''alice'' (CHR 0x27 # '' OR '1'='1''))
     = Inr [(''authenticated'', PBool True), (''user_id'', PInt 1)]
   \<and> snd (authenticate_user module_globals echo_world ''mallory'' (CHR 0x27 # '' OR '1'='1''))
     = Inr [(''authenticated'', PBool True), (''user_id'', PInt 1)]"
  by (simp add: authenticate_user_def get_db_connection_def echo_world_def login_query_def
      fetchone_def py_row_def tuple_index_def engine_defs)

text \<open>
  C5, amended: \<open>authenticate_user\<close> returns \<open>authenticated: True\<close> with \<open>user_id\<close> the
  first column of the first row exactly when the database returns a row for the text
  \<^verbatim>\<open>SELECT * FROM users WHERE username='<username>' AND password='<password>'\<close>, with
  both strings put in unchanged; it returns \<open>authenticated: False\<close>, the same object
  whether the username is unknown or the password differs, exactly when the database
  returns no row (or an empty one) for that text.
\<close>

theorem authenticate_user_decided_by_rows:
  "(snd (authenticate_user g w username password)
      = Inr [(''authenticated'', PBool True), (''user_id'', uid)]
     \<longleftrightarrow> (\<exists>conn c cs rows.
           sqlite3_connect w (DATABASE_PATH g) = Inr conn
           \<and> conn (''SELECT * FROM users WHERE username='' @ [CHR 0x27] @ username @ [CHR 0x27]
                    @ '' AND password='' @ [CHR 0x27] @ password @ [CHR 0x27]) []
               = Inr ((c # cs) # rows)
           \<and> uid = py_of_sql c))
   \<and> (snd (authenticate_user g w username password) = Inr [(''authenticated'', PBool False)]
     \<longleftrightarrow> (\<exists>conn rows.
           sqlite3_connect w (DATABASE_PATH g) = Inr conn
           \<and> conn (''SELECT * FROM users WHERE username='' @ [CHR 0x27] @ username @ [CHR 0x27]
                    @ '' AND password='' @ [CHR 0x27] @ password @ [CHR 0x27]) []
               = Inr rows
           \<and> take 1 rows \<in> {[], [[]]}))"
proof -
  have q: "''SELECT * FROM users WHERE username='' @ [CHR 0x27] @ username @ [CHR 0x27]
           @ '' AND password='' @ [CHR 0x27] @ password @ [CHR 0x27]
           = login_query username password"
    by (simp add: login_query_def)
  show ?thesis
  proof (cases "sqlite3_connect w (DATABASE_PATH g)")
    case (Inl e)
    then show ?thesis
      by (simp add: authenticate_user_connect_fails)
  next
    case (Inr conn)
    from authenticate_user_connected [OF Inr] Inr show ?thesis
      unfolding q by (auto split: sum.splits list.splits)
  qed
qed

subsection \<open>The profile projection\<close>

text \<open>
  C2, as stated: the profile holds only \<open>id\<close>, \<open>username\<close> and \<open>email\<close>, never the
  password, the national ID or the payment instrument.  It fails: the profile of user 1
  holds all three.
\<close>

theorem get_user_profile_leaks_counterexample:
  "snd (get_user_profile module_globals echo_world ''1'')
     = Inr (PDict [(''id'', PInt 1), (''username'', PStr ''alice''),
                   (''email'', PStr ''alice@mail.test''),
                   (''password'', PStr ''correct horse''),
                   (''ssn'', PStr ''078-05-1120''),
                   (''credit_card'', PStr ''4111111111111111'')])"
  by (simp add: get_user_profile_def get_db_connection_def echo_world_def profile_query_def
      fetchone_def py_row_def tuple_index_def engine_defs)

text \<open>
  C2, amended: for every user row that the database returns first for the profile
  lookup, with six columns or more, \<open>get_user_profile\<close> maps the first six columns
  outward as \<open>id\<close>, \<open>username\<close>, \<open>email\<close>, \<open>password\<close>, \<open>ssn\<close> and \<open>credit_card\<close>, and
  drops any further column.
\<close>

theorem get_user_profile_fields:
  assumes "sqlite3_connect w (DATABASE_PATH g) = Inr conn"
    and "conn (profile_query user_id) [] = Inr ((c0 # c1 # c2 # c3 # c4 # c5 # extra) # rows)"
  shows "snd (get_user_profile g w user_id)
     = Inr (PDict [(''id'', py_of_sql c0), (''username'', py_of_sql c1),
                   (''email'', py_of_sql c2), (''password'', py_of_sql c3),
                   (''ssn'', py_of_sql c4), (''credit_card'', py_of_sql c5)])"
  using assms
  by (simp add: get_user_profile_def get_db_connection_def fetchone_def py_row_def tuple_index_def)

theorem get_user_profile_fields_witness:
  "sqlite3_connect echo_world (DATABASE_PATH module_globals) = Inr (sqlite_execute demo_db)
   \<and> sqlite_execute demo_db (profile_query ''2'') []
       = Inr ([SInt 2, SText ''bob'', SText ''bob@mail.test'', SText ''hunter2'',
               SText ''219-09-9999'', SText ''5500005555555559''] # [])
   \<and> snd (get_user_profile module_globals echo_world ''2'')
       = Inr (PDict [(''id'', PInt 2), (''username'', PStr ''bob''),
                     (''email'', PStr ''bob@mail.test''), (''password'', PStr ''hunter2''),
                     (''ssn'', PStr ''219-09-9999''), (''credit_card'', PStr ''5500005555555559'')])"
proof -
  have c: "sqlite3_connect echo_world (DATABASE_PATH module_globals) = Inr (sqlite_execute demo_db)"
    by (simp add: echo_world_def)
  have r: "sqlite_execute demo_db (profile_query ''2'') []
       = Inr ([SInt 2, SText ''bob'', SText ''bob@mail.test'', SText ''hunter2'',
               SText ''219-09-9999'', SText ''5500005555555559''] # [])"
    by (simp add: profile_query_def engine_defs)
  from get_user_profile_fields [OF c r] c r show ?thesis by simp
qed

subsection \<open>Error responses\<close>

text \<open>
  C4, as stated: the error body holds no configuration or secret value and no stack
  trace, and does not change with the process's configuration.  It fails: the body has a
  field \<open>config\<close> with the API key and the secret, a field \<open>traceback\<close> with the stack
  trace, and two runs that differ only in the API key give different bodies.
\<close>

theorem handle_error_leaks_counterexample:
  "py_field (handle_error module_globals echo_world (Exn ''sqlite3.OperationalError'' ''unable to open database file'')) ''config''
     = Some (PDict [(''api_key'', PStr ''sk-live-abc123xyz789secret''),
                    (''database'', PStr ''/var/data/app.db''),
                    (''debug'', PBool True),
                    (''secret'', PStr ''super-secret-value-456'')])
   \<and> py_field (handle_error module_globals echo_world (Exn ''sqlite3.OperationalError'' ''unable to open database file'')) ''traceback''
     = Some (PStr (traceback_format_exc echo_world))
   \<and> handle_error module_globals echo_world (Exn ''sqlite3.OperationalError'' ''unable to open database file'')
     \<noteq> handle_error (module_globals \<lparr> API_KEY := ''sk-live-rotated'' \<rparr>) echo_world
          (Exn ''sqlite3.OperationalError'' ''unable to open database file'')"
  by (simp add: handle_error_def get_config_def py_field_def module_globals_def)

text \<open>
  C4, amended: for every error, the body that \<open>handle_error\<close> produces is the object
  with exactly the fields \<open>error\<close> (the error's text), \<open>traceback\<close> (the formatted stack
  trace) and \<open>config\<close> (the API key, the database path, the debug flag and the literal
  secret); two runs that differ only in the configuration give the same body exactly
  when the configurations are equal.
\<close>

theorem handle_error_body:
  "handle_error g w error
     = PDict [(''error'', PStr (exn_str error)),
              (''traceback'', PStr (traceback_format_exc w)),
              (''config'', PDict [(''api_key'', PStr (API_KEY g)),
                                  (''database'', PStr (DATABASE_PATH g)),
                                  (''debug'', PBool (DEBUG_MODE g)),
                                  (''secret'', PStr ''super-secret-value-456'')])]
   \<and> (handle_error g w error = handle_error g' w error \<longleftrightarrow> g = g')"
  by (auto simp add: handle_error_def get_config_def)

subsection \<open>Export\<close>

text \<open>
  C6, as stated: \<open>export_data\<close> never executes a query string of the caller's and fails
  with \<open>ValidationError\<close> for an unknown report identifier.  It fails: the caller's text
  is executed as it is and returns the token table; a text that is no statement fails
  with the database's own error.
\<close>

theorem export_data_runs_caller_text_counterexample:
  "executed (fst (export_data module_globals echo_world ''json'' ''SELECT token, role FROM tokens''))
     = [(''SELECT token, role FROM tokens'', [])]
   \<and> snd (export_data module_globals echo_world ''json'' ''SELECT token, role FROM tokens'')
     = Inr (PList [PTuple [PStr ''tok-root'', PStr ''admin''],
                   PTuple [PStr ''tok-bob'', PStr ''standard'']])
   \<and> (case snd (export_data module_globals echo_world ''csv'' ''no_such_report'') of
         Inl e \<Rightarrow> exn_class e
       | Inr v \<Rightarrow> [])
     = ''sqlite3.OperationalError''"
  by (simp add: export_data_def get_db_connection_def echo_world_def fetchall_def py_row_def
      engine_defs)

text \<open>
  C6, amended: for every format and query string, once the connection is open,
  \<open>export_data\<close> executes exactly the caller's query string, unchanged and with no bound
  parameter; it fails with the exception the database raises for that text, if any, and
  otherwise returns the rows (joined with commas when the format is \<open>csv\<close>).
\<close>

theorem export_data_executes_query:
  assumes "sqlite3_connect w (DATABASE_PATH g) = Inr conn"
  shows "executed (fst (export_data g w format_type query)) = [(query, [])]
   \<and> snd (export_data g w format_type query)
     = (case conn query [] of
          Inl e \<Rightarrow> Inl e
        | Inr data \<Rightarrow>
            Inr (if format_type = ''csv'' then PStr (py_join '','' (map (str_row w) data))
                 else fetchall data))"
  using assms
  by (simp add: export_data_def get_db_connection_def split: sum.splits)

theorem export_data_executes_query_witness:
  "sqlite3_connect echo_world (DATABASE_PATH module_globals) = Inr (sqlite_execute demo_db)
   \<and> executed (fst (export_data module_globals echo_world ''csv'' ''SELECT name FROM records WHERE id=2''))
       = [(''SELECT name FROM records WHERE id=2'', [])]
   \<and> snd (export_data module_globals echo_world ''csv'' ''SELECT name FROM records WHERE id=2'')
       = Inr (PStr ''()'')"
proof -
  have c: "sqlite3_connect echo_world (DATABASE_PATH module_globals) = Inr (sqlite_execute demo_db)"
    by (simp add: echo_world_def)
  have r: "sqlite_execute demo_db ''SELECT name FROM records WHERE id=2'' [] = Inr [[SText ''Smith'']]"
    by (simp add: engine_defs)
  have s: "str_row echo_world = (\<lambda>r. ''()'')"
    by (simp add: echo_world_def)
  from export_data_executes_query [OF c, of "''csv''" "''SELECT name FROM records WHERE id=2''"] c
  show ?thesis by (simp add: r s)
qed


subsection \<open>The webhook relay\<close>

text \<open>
  C10. For every payload whose \<open>callback\<close> entry is missing or falsy, \<open>handle_webhook\<close>
  returns the string \<open>No callback\<close> and performs no outbound request; for every payload
  whose \<open>callback\<close> entry is truthy it performs exactly one outbound request, to the
  value of that entry unchanged.  So a request is issued if and only if the entry is
  truthy.
\<close>

theorem handle_webhook_callback:
  "(\<not> truthy (dict_get payload ''callback'') \<longrightarrow>
      handle_webhook w payload = ([], Inr ''No callback''))
   \<and> (truthy (dict_get payload ''callback'') \<longrightarrow>
      fst (handle_webhook w payload) = [RequestsGet (dict_get payload ''callback'') True]
      \<and> snd (handle_webhook w payload) = requests_get w (dict_get payload ''callback'') True)
   \<and> ((\<exists>url verify. RequestsGet url verify \<in> set (fst (handle_webhook w payload)))
        \<longleftrightarrow> truthy (dict_get payload ''callback''))"
  by (auto simp add: handle_webhook_def Let_def)

theorem handle_webhook_callback_witness:
  "\<not> truthy (dict_get Map.empty ''callback'')
   \<and> handle_webhook echo_world Map.empty = ([], Inr ''No callback'')
   \<and> truthy (dict_get [''callback'' \<mapsto> PStr ''http://hooks.test/a''] ''callback'')
   \<and> handle_webhook echo_world [''callback'' \<mapsto> PStr ''http://hooks.test/a'']
       = ([RequestsGet (PStr ''http://hooks.test/a'') True], Inr ''pong'')"
proof -
  let ?p = "[''callback'' \<mapsto> PStr ''http://hooks.test/a'']"
  have absent: "\<not> truthy (dict_get Map.empty ''callback'')"
    by (simp add: dict_get_def)
  have present: "truthy (dict_get ?p ''callback'')"
    by (simp add: dict_get_def)
  have got: "dict_get ?p ''callback'' = PStr ''http://hooks.test/a''"
    by (simp add: dict_get_def)
  from handle_webhook_callback [of Map.empty echo_world] absent
  have a: "handle_webhook echo_world Map.empty = ([], Inr ''No callback'')"
    by blast
  from handle_webhook_callback [of ?p echo_world] present
  have "fst (handle_webhook echo_world ?p) = [RequestsGet (dict_get ?p ''callback'') True]
        \<and> snd (handle_webhook echo_world ?p) = requests_get echo_world (dict_get ?p ''callback'') True"
    by blast
  then have b: "handle_webhook echo_world ?p
                 = ([RequestsGet (PStr ''http://hooks.test/a'') True], Inr ''pong'')"
    by (simp add: got echo_world_def prod_eq_iff)
  from absent a present b show ?thesis by blast
qed

subsection \<open>Remote configuration\<close>

text \<open>
  C7, as stated: every outbound fetch checks the TLS certificate.  It fails:
  \<open>fetch_remote_config\<close> calls \<^verbatim>\<open>requests.get(url, verify=False)\<close>.
\<close>

theorem fetch_remote_config_unverified_counterexample:
  "\<not> tls_verified (fst (fetch_remote_config echo_world ''https://config.test/app.yaml''))"
  by (simp add: fetch_remote_config_def)

text \<open>
  C7, amended: for every URL, \<open>fetch_remote_config\<close> issues exactly one outbound
  request, to that URL, with certificate checking switched off; the request of
  \<open>handle_webhook\<close>, the other outbound fetch, leaves certificate checking on.
\<close>

theorem fetch_remote_config_verify_off:
  "fst (fetch_remote_config w url) = [RequestsGet (PStr url) False]
   \<and> \<not> tls_verified (fst (fetch_remote_config w url))
   \<and> tls_verified (fst (handle_webhook w payload))"
  by (simp add: fetch_remote_config_def handle_webhook_def Let_def)

subsection \<open>Mail and other external processes\<close>

text \<open>
  C8, as stated: mail is sent, and processes are started, with an argument array and no
  shell command line built from the caller's strings.  It fails: \<open>send_email\<close> runs one
  string through the shell, and the caller's body is part of that string.
\<close>

theorem send_email_shell_counterexample:
  "\<not> argv_only (fst (send_email echo_world ''ops@mail.test'' ''status'' ''$(id)''))
   \<and> fst (send_email echo_world ''ops@mail.test'' ''status'' ''$(id)'')
       = [SubprocessCall
            (CmdString (''echo '' @ [CHR 0x22] @ ''$(id)'' @ [CHR 0x22] @ '' | mail -s ''
                        @ [CHR 0x22] @ ''status'' @ [CHR 0x22] @ '' ops@mail.test'')) True]"
  by (simp add: send_email_def send_email_cmd_def Let_def)

text \<open>
  C8, amended: for every recipient, subject and body, \<open>send_email\<close> starts exactly one
  process, through the shell, with the single command line
  \<^verbatim>\<open>echo "<body>" | mail -s "<subject>" <recipient>\<close> that holds the three strings
  unchanged; \<open>run_system_command\<close> hands its argument unchanged to the shell, and
  \<open>create_backup\<close> puts the backup name unchanged into a command line for
  \<^verbatim>\<open>os.system\<close>.  None of them passes an argument array.
\<close>

theorem external_commands_through_shell:
  "fst (send_email w to_address subject body)
     = [SubprocessCall
          (CmdString (''echo '' @ [CHR 0x22] @ body @ [CHR 0x22] @ '' | mail -s ''
                      @ [CHR 0x22] @ subject @ [CHR 0x22] @ '' '' @ to_address)) True]
   \<and> fst (run_system_command w command) = [SubprocessCall (CmdString command) True]
   \<and> fst (create_backup g w backup_name)
     = [OsSystem (''cp '' @ DATABASE_PATH g @ '' /backups/'' @ backup_name @ ''.db'')]
   \<and> \<not> argv_only (fst (send_email w to_address subject body))
   \<and> \<not> argv_only (fst (run_system_command w command))
   \<and> \<not> argv_only (fst (create_backup g w backup_name))"
  by (simp add: send_email_def send_email_cmd_def run_system_command_def create_backup_def Let_def)

subsection \<open>File upload\<close>

text \<open>
  C9, as stated: whatever the filename, the stored path stays inside the upload
  directory.  It fails: the filename \<open>../etc/passwd\<close> is written to
  \<open>/uploads/../etc/passwd\<close>, which the file system reads as \<open>/etc/passwd\<close>.
\<close>

theorem upload_file_escape_counterexample:
  "written_paths (fst (upload_file echo_world [104, 105] ''../etc/passwd''))
     = [''/uploads/../etc/passwd'']
   \<and> resolve ''/uploads/../etc/passwd'' = [''etc'', ''passwd'']
   \<and> \<not> inside_uploads ''/uploads/../etc/passwd''"
  by (simp add: upload_file_def inside_uploads_def resolve_def Let_def)

text \<open>
  C9, amended: for every filename, the path handed to file storage is \<open>/uploads/\<close>
  followed by the caller's filename, unchanged, and that path is what the handler
  reports back.
\<close>

theorem upload_file_path_verbatim:
  "fst (upload_file w file_content filename)
     = [OpenWriteBytes (''/uploads/'' @ filename) file_content]
   \<and> (snd (upload_file w file_content filename)
        = (case open_write_bytes w (''/uploads/'' @ filename) file_content of
             Some e \<Rightarrow> Inl e
           | None \<Rightarrow> Inr [(''success'', PBool True), (''path'', PStr (''/uploads/'' @ filename))]))"
  by (simp add: upload_file_def Let_def split: option.splits)

end
